theory Spec2Isabelle
  imports Main
begin

section \<open>Exceptions\<close>

text \<open>
  The Python exceptions that the modelled functions raise or let through. Each carries
  its message. \<open>FacultyError\<close> is declared in \<^verbatim>\<open>faculty.py\<close> as a subclass of
  \<open>GkeepException\<close>, so an \<^verbatim>\<open>except GkeepException\<close> clause catches both.
\<close>

datatype exn =
    GkeepException string
  | FacultyError string
  | ServerInterfaceError string
  | AttributeError string
  | KeyError string
  | IndexError string
  | ValueError string
  | OSError string

fun is_GkeepException :: "exn \<Rightarrow> bool" where
  "is_GkeepException (GkeepException m) = True"
| "is_GkeepException (FacultyError m) = True"
| "is_GkeepException e = False"

fun str_exn :: "exn \<Rightarrow> string" where
  "str_exn (GkeepException m) = m"
| "str_exn (FacultyError m) = m"
| "str_exn (ServerInterfaceError m) = m"
| "str_exn (AttributeError m) = m"
| "str_exn (KeyError m) = m"
| "str_exn (IndexError m) = m"
| "str_exn (ValueError m) = m"
| "str_exn (OSError m) = m"

section \<open>String helpers of the Python runtime\<close>

text \<open>
  \<^verbatim>\<open>str.format\<close> for templates whose replacement fields are a single decimal digit
  (\<^verbatim>\<open>{0}\<close> to \<^verbatim>\<open>{9}\<close>), which is all the modelled code uses. A field whose index is
  past the arguments raises IndexError, a malformed field or a lone brace ValueError.
\<close>

definition digit_val :: "char \<Rightarrow> nat option" where
  "digit_val c = map_of (zip ''0123456789'' [0, 1, 2, 3, 4, 5, 6, 7, 8, 9]) c"

fun format_str :: "string \<Rightarrow> string list \<Rightarrow> exn + string" where
  "format_str [] args = Inr []"
| "format_str [c] args =
     (if c = CHR ''{'' \<or> c = CHR ''}'' then Inl (ValueError ''bad format string'')
      else Inr [c])"
| "format_str [c, d] args =
     (if c = CHR ''{'' \<or> c = CHR ''}'' then Inl (ValueError ''bad format string'')
      else (case format_str [d] args of Inl e \<Rightarrow> Inl e | Inr s \<Rightarrow> Inr (c # s)))"
| "format_str (c # d # k # rest) args =
     (if c = CHR ''{'' then
        (case digit_val d of
           None \<Rightarrow> Inl (ValueError ''bad format string'')
         | Some i \<Rightarrow>
             if k \<noteq> CHR ''}'' then Inl (ValueError ''bad format string'')
             else if length args \<le> i then Inl (IndexError ''tuple index out of range'')
             else (case format_str rest args of
                     Inl e \<Rightarrow> Inl e
                   | Inr s \<Rightarrow> Inr (args ! i @ s)))
      else if c = CHR ''}'' then Inl (ValueError ''bad format string'')
      else (case format_str (d # k # rest) args of
              Inl e \<Rightarrow> Inl e
            | Inr s \<Rightarrow> Inr (c # s)))"

text \<open>
  \<^verbatim>\<open>s.split(sep)\<close> for a one-character separator: the pieces between the
  occurrences of \<open>sep\<close>, always at least one piece.
\<close>

fun split_str :: "char \<Rightarrow> string \<Rightarrow> string list" where
  "split_str sep [] = [[]]"
| "split_str sep (c # cs) =
     (if c = sep then [] # split_str sep cs
      else (case split_str sep cs of
              [] \<Rightarrow> [[c]]
            | p # ps \<Rightarrow> (c # p) # ps))"

section \<open>faculty.py\<close>

record Faculty =
  last_name :: string
  first_name :: string
  username :: string
  email_address :: string

text \<open>
  \<^verbatim>\<open>Faculty.from_csv_row\<close>: a row that does not have three fields raises FacultyError;
  the tuple assignment \<^verbatim>\<open>username, domain = email_address.split('@')\<close> raises
  ValueError unless the split has exactly two pieces, which the code turns into
  FacultyError. The message of the first error also carries the printed row in the
  source; the model keeps its fixed part.
\<close>

definition from_csv_row :: "string list \<Rightarrow> exn + Faculty" where
  "from_csv_row csv_row =
     (case csv_row of
        [lname, fname, email] \<Rightarrow>
          (case split_str CHR ''@'' email of
             [user, domain] \<Rightarrow>
               Inr \<lparr>last_name = lname, first_name = fname,
                    username = user, email_address = email\<rparr>
           | _ \<Rightarrow> Inl (FacultyError (''Not a valid email address: '' @ email)))
      | _ \<Rightarrow> Inl (FacultyError ''Not a valid faculty row''))"

section \<open>fetch_submissions.py: the clone URL\<close>

text \<open>
  The client configuration module is not among the sources; the three values that
  \<^verbatim>\<open>build_clone_url\<close> reads from it are a record, each field the text that
  \<^verbatim>\<open>format\<close> inserts for it. The template of the source is one string literal; it
  is written here in two pieces that are appended.
\<close>

record config =
  server_username :: string
  server_host :: string
  server_ssh_port :: string

definition build_clone_url :: "config \<Rightarrow> string \<Rightarrow> exn + string" where
  "build_clone_url cfg path =
     format_str (''ssh://{0}@'' @ ''{1}:{2}/{3}'')
       [server_username cfg, server_host cfg, server_ssh_port cfg, path]"

section \<open>The local file system and the git commands\<close>

text \<open>
  Modelled from the spec: the module \<^verbatim>\<open>gkeepcore.git_commands\<close> (\<^verbatim>\<open>is_non_bare_repo\<close>,
  \<^verbatim>\<open>git_head_hash\<close>, \<^verbatim>\<open>git_clone_remote\<close>, \<^verbatim>\<open>git_pull\<close>) is not among the sources.
  The spec gives its interface: \<open>isRepo(path)\<close> answers a boolean; \<open>headHash(path)\<close>
  gives the commit identifier at the tip of the repository's branch, or fails when the
  path is not a valid repository or the command fails; \<open>clone(url, path)\<close> makes a full
  copy of the remote repository and \<open>pull(path, url)\<close> updates an existing copy, each
  failing on a non-zero exit.

  A local path holds nothing, a directory that is not a repository, or a repository
  together with what reading its HEAD yields. A remote URL yields either a failure or
  the HEAD hash of the repository behind it. Every git command that runs is appended
  to \<open>calls\<close>, so that theorems can say which commands a function issued.
\<close>

datatype entry = NotRepo | Repo "exn + string"

datatype git_call =
    GitHeadHash string
  | GitClone string string
  | GitPull string string

record world =
  fs :: "string \<rightharpoonup> entry"
  remote :: "string \<Rightarrow> exn + string"
  calls :: "git_call list"

definition isdir :: "world \<Rightarrow> string \<Rightarrow> bool" where
  "isdir w path = (fs w path \<noteq> None)"

definition is_non_bare_repo :: "world \<Rightarrow> string \<Rightarrow> bool" where
  "is_non_bare_repo w path =
     (case fs w path of Some (Repo r) \<Rightarrow> True | _ \<Rightarrow> False)"

definition git_head_hash :: "string \<Rightarrow> world \<Rightarrow> (exn + string) \<times> world" where
  "git_head_hash path w =
     ((case fs w path of
         Some (Repo r) \<Rightarrow> r
       | _ \<Rightarrow> Inl (GkeepException ''not a git repository'')),
      w\<lparr>calls := calls w @ [GitHeadHash path]\<rparr>)"

definition git_clone_remote :: "string \<Rightarrow> string \<Rightarrow> world \<Rightarrow> (exn + unit) \<times> world" where
  "git_clone_remote url path w =
     (let w1 = w\<lparr>calls := calls w @ [GitClone url path]\<rparr> in
      case remote w url of
        Inl e \<Rightarrow> (Inl e, w1)
      | Inr h \<Rightarrow> (Inr (), w1\<lparr>fs := (fs w1)(path \<mapsto> Repo (Inr h))\<rparr>))"

definition git_pull :: "string \<Rightarrow> string \<Rightarrow> world \<Rightarrow> (exn + unit) \<times> world" where
  "git_pull path url w =
     (let w1 = w\<lparr>calls := calls w @ [GitPull path url]\<rparr> in
      case fs w path of
        Some (Repo r) \<Rightarrow>
          (case remote w url of
             Inl e \<Rightarrow> (Inl e, w1)
           | Inr h \<Rightarrow> (Inr (), w1\<lparr>fs := (fs w1)(path \<mapsto> Repo (Inr h))\<rparr>))
      | _ \<Rightarrow> (Inl (GkeepException ''not a git repository''), w1))"

text \<open>\<^verbatim>\<open>os.path.join\<close> of two POSIX paths: an absolute second path replaces the first.\<close>

definition os_path_join :: "string \<Rightarrow> string \<Rightarrow> string" where
  "os_path_join a b =
     (if b \<noteq> [] \<and> hd b = CHR ''/'' then b
      else if a = [] \<or> last a = CHR ''/'' then a @ b
      else a @ ''/'' @ b)"

section \<open>fetch_submissions.py: cloning and pulling\<close>

text \<open>
  The functions print what they did and return nothing; the model returns, as the
  outcome, which of the source's return paths was taken:
  \<^item> \<open>Cloned\<close>: \<^verbatim>\<open>clone_repo\<close> printed \<^verbatim>\<open>success!\<close>;
  \<^item> \<open>CloneError\<close>: it printed \<^verbatim>\<open>error cloning: ...\<close>;
  \<^item> \<open>NotARepo\<close>: \<^verbatim>\<open>pull_repo_if_updated\<close> printed \<^verbatim>\<open>... exists but is not a git repository\<close>;
  \<^item> \<open>ReadError\<close>: it printed \<^verbatim>\<open>Error reading local git repository ...\<close>;
  \<^item> \<open>UpToDate\<close>: it returned silently because the hashes are the same;
  \<^item> \<open>Pulled\<close>: it printed \<^verbatim>\<open>success!\<close> after the pull;
  \<^item> \<open>PullError\<close>: it printed the message of the exception that the pull raised.
\<close>

datatype outcome =
    Cloned
  | CloneError string
  | NotARepo
  | ReadError string
  | UpToDate
  | Pulled
  | PullError string

definition clone_repo :: "string \<Rightarrow> string \<Rightarrow> world \<Rightarrow> (exn + outcome) \<times> world" where
  "clone_repo local_repo_path remote_url w =
     (case git_clone_remote remote_url local_repo_path w of
        (Inr u, w1) \<Rightarrow> (Inr Cloned, w1)
      | (Inl e, w1) \<Rightarrow>
          if is_GkeepException e then (Inr (CloneError (str_exn e)), w1)
          else (Inl e, w1))"

definition pull_repo_if_updated ::
  "string \<Rightarrow> string \<Rightarrow> string \<Rightarrow> world \<Rightarrow> (exn + outcome) \<times> world" where
  "pull_repo_if_updated local_repo_path remote_url remote_head_hash w =
     (if \<not> is_non_bare_repo w local_repo_path then (Inr NotARepo, w)
      else
        case git_head_hash local_repo_path w of
          (Inl e, w1) \<Rightarrow>
            if is_GkeepException e then (Inr (ReadError (str_exn e)), w1)
            else (Inl e, w1)
        | (Inr local_head_hash, w1) \<Rightarrow>
            if local_head_hash = remote_head_hash then (Inr UpToDate, w1)
            else
              case git_pull local_repo_path remote_url w1 of
                (Inr u, w2) \<Rightarrow> (Inr Pulled, w2)
              | (Inl e, w2) \<Rightarrow>
                  if is_GkeepException e then (Inr (PullError (str_exn e)), w2)
                  else (Inl e, w2))"

text \<open>
  The server interface and the path utilities are not among the sources either:
  \<^verbatim>\<open>server_interface.user_home_dir\<close> (which may raise) and
  \<^verbatim>\<open>student_assignment_repo_path\<close> are parameters, next to the configuration.
\<close>

record client =
  cfg :: config
  user_home_dir :: "string \<Rightarrow> exn + string"
  student_assignment_repo_path :: "string \<Rightarrow> string \<Rightarrow> string \<Rightarrow> string \<Rightarrow> string"

text \<open>
  \<^verbatim>\<open>pull if the repo already exists, clone otherwise\<close>: the \<^verbatim>\<open>if\<close>/\<^verbatim>\<open>else\<close> that ends
  \<^verbatim>\<open>fetch_student_submission\<close>.
\<close>

definition pull_or_clone ::
  "string \<Rightarrow> string \<Rightarrow> string \<Rightarrow> world \<Rightarrow> (exn + outcome) \<times> world" where
  "pull_or_clone path url remote_head_hash w =
     (if isdir w path then pull_repo_if_updated path url remote_head_hash w
      else clone_repo path url w)"

definition fetch_student_submission ::
  "client \<Rightarrow> string \<Rightarrow> string \<Rightarrow> string \<Rightarrow> string \<Rightarrow> string \<Rightarrow> string \<Rightarrow> world
     \<Rightarrow> (exn + outcome) \<times> world" where
  "fetch_student_submission cl class_name assignment_name assignment_submission_path
       remote_head_hash uname last_first_uname w =
     (let student_submission_path =
            os_path_join assignment_submission_path last_first_uname in
      case user_home_dir cl uname of
        Inl e \<Rightarrow> (Inl e, w)
      | Inr student_home_dir \<Rightarrow>
          let remote_repo_path =
                student_assignment_repo_path cl (server_username (cfg cl))
                  class_name assignment_name student_home_dir in
          case build_clone_url (cfg cl) remote_repo_path of
            Inl e \<Rightarrow> (Inl e, w)
          | Inr remote_git_url \<Rightarrow>
              pull_or_clone student_submission_path remote_git_url remote_head_hash w)"

text \<open>
  The two lookups of \<^verbatim>\<open>JsonInfo\<close> that the loop of \<^verbatim>\<open>fetch_assignment_submissions\<close>
  makes for each student, and the student list. A lookup in the nested dictionary
  raises when a key is missing.
\<close>

record JsonInfo =
  student_list :: "string \<Rightarrow> string list"
  assignment_by_student_hash :: "string \<Rightarrow> string \<Rightarrow> string \<Rightarrow> exn + string"
  last_first_username :: "string \<Rightarrow> string \<Rightarrow> exn + string"

text \<open>
  The loop \<^verbatim>\<open>for username in info.student_list(class_name)\<close> of
  \<^verbatim>\<open>fetch_assignment_submissions\<close>, over the students still to do. An exception
  that a step lets through ends the loop; otherwise there is one outcome per student,
  in the order of the list.
\<close>

fun fetch_each_student ::
  "client \<Rightarrow> JsonInfo \<Rightarrow> string \<Rightarrow> string \<Rightarrow> string \<Rightarrow> string list \<Rightarrow> world
     \<Rightarrow> (exn + outcome list) \<times> world" where
  "fetch_each_student cl info class_name assignment_name asp [] w = (Inr [], w)"
| "fetch_each_student cl info class_name assignment_name asp (u # us) w =
     (case assignment_by_student_hash info class_name assignment_name u of
        Inl e \<Rightarrow> (Inl e, w)
      | Inr remote_head_hash \<Rightarrow>
          case last_first_username info class_name u of
            Inl e \<Rightarrow> (Inl e, w)
          | Inr lfu \<Rightarrow>
              case fetch_student_submission cl class_name assignment_name asp
                     remote_head_hash u lfu w of
                (Inl e, w1) \<Rightarrow> (Inl e, w1)
              | (Inr oc, w1) \<Rightarrow>
                  case fetch_each_student cl info class_name assignment_name asp us w1 of
                    (Inl e, w2) \<Rightarrow> (Inl e, w2)
                  | (Inr ocs, w2) \<Rightarrow> (Inr (oc # ocs), w2))"

section \<open>The decision that a run makes\<close>

text \<open>
  The source has no function that returns a decision; what it decides shows in the
  git commands it issues. \<open>issued w w'\<close> are the commands appended between two
  worlds, and \<open>decision_of\<close> reads them: a clone, a pull, or neither.
\<close>

datatype decision = NoOp | Clone | Pull

definition issued :: "world \<Rightarrow> world \<Rightarrow> git_call list" where
  "issued w w' = drop (length (calls w)) (calls w')"

fun decision_of :: "git_call list \<Rightarrow> decision" where
  "decision_of [] = NoOp"
| "decision_of (GitClone url path # cs) = Clone"
| "decision_of (GitPull path url # cs) = Pull"
| "decision_of (GitHeadHash path # cs) = decision_of cs"

definition sync_decision :: "string \<Rightarrow> string \<Rightarrow> string \<Rightarrow> world \<Rightarrow> decision" where
  "sync_decision path url remote_head_hash w =
     decision_of (issued w (snd (pull_or_clone path url remote_head_hash w)))"

text \<open>
  The clone or pull that the decision stands for raises an exception in this world.
\<close>

definition transport_call_fails :: "string \<Rightarrow> string \<Rightarrow> string \<Rightarrow> world \<Rightarrow> bool" where
  "transport_call_fails path url remote_head_hash w =
     (case sync_decision path url remote_head_hash w of
        NoOp \<Rightarrow> False
      | Clone \<Rightarrow> isl (fst (git_clone_remote url path w))
      | Pull \<Rightarrow> isl (fst (git_pull path url w)))"

text \<open>
  The spec's outcome \<open>Failed\<close> is recorded on a transport error during clone or
  pull: the two outcomes that report such an error.
\<close>

fun is_Failed :: "outcome \<Rightarrow> bool" where
  "is_Failed (CloneError m) = True"
| "is_Failed (PullError m) = True"
| "is_Failed oc = False"

text \<open>
  The outcomes with which the code reports an error for the target: a clone or pull
  that raised, a directory that is not a repository, a HEAD that cannot be read. The
  spec's error taxonomy files all of these under transport errors.
\<close>

fun reports_error :: "outcome \<Rightarrow> bool" where
  "reports_error Cloned = False"
| "reports_error UpToDate = False"
| "reports_error Pulled = False"
| "reports_error oc = True"

text \<open>
  Every failure that the world can produce is a \<open>GkeepException\<close>, which is what the
  git commands raise for a transport error.
\<close>

definition transport_errors_only :: "world \<Rightarrow> bool" where
  "transport_errors_only w =
     ((\<forall>url e. remote w url = Inl e \<longrightarrow> is_GkeepException e) \<and>
      (\<forall>path e. fs w path = Some (Repo (Inl e)) \<longrightarrow> is_GkeepException e))"

text \<open>
  The spec's contract, in its words: the local hash is absent when it is unknown or
  unreadable, which includes a path that is not a valid repository.
  \<^item> if \<open>localExists\<close> is false: Clone, regardless of hashes;
  \<^item> if \<open>localExists\<close> is true and \<open>localHash == remoteHash\<close>: NoOp;
  \<^item> if \<open>localExists\<close> is true and \<open>localHash != remoteHash\<close> (or \<open>localHash\<close>
    unknown/unreadable): Pull.
\<close>

definition spec_decide :: "bool \<Rightarrow> string option \<Rightarrow> string \<Rightarrow> decision" where
  "spec_decide localExists localHash remoteHash =
     (if \<not> localExists then Clone
      else if localHash = Some remoteHash then NoOp
      else Pull)"

definition local_hash :: "world \<Rightarrow> string \<Rightarrow> string option" where
  "local_hash w path =
     (case fs w path of Some (Repo (Inr h)) \<Rightarrow> Some h | _ \<Rightarrow> None)"

text \<open>
  The clone URL format in the spec's words: \<open>ssh://\<close>, the username, \<open>@\<close>, the host,
  a colon, the port, a slash, the server path.
\<close>

definition ssh_url :: "config \<Rightarrow> string \<Rightarrow> string" where
  "ssh_url c path =
     ''ssh://'' @ server_username c @ ''@'' @ server_host c @ '':'' @
     server_ssh_port c @ ''/'' @ path"

text \<open>The remote URL that \<^verbatim>\<open>fetch_student_submission\<close> builds for a home directory.\<close>

definition student_url :: "client \<Rightarrow> string \<Rightarrow> string \<Rightarrow> string \<Rightarrow> string" where
  "student_url cl class_name assignment_name home =
     ssh_url (cfg cl)
       (student_assignment_repo_path cl (server_username (cfg cl))
          class_name assignment_name home)"

section \<open>class_information.py: Submission.is_fetched\<close>

text \<open>
  Modelled from the spec: the class \<^verbatim>\<open>FetchedHashCache\<close> is imported from
  \<^verbatim>\<open>gkeepclient.fetch_submissions\<close>, which does not define it. The spec describes the
  hash cache as a mapping from a local repository path to the last observed local HEAD
  hash; \<open>is_cached\<close> asks whether a path has an entry and \<open>set_hash\<close> writes one.
\<close>

type_synonym hash_cache = "string \<rightharpoonup> string"

definition is_cached :: "hash_cache \<Rightarrow> string \<Rightarrow> bool" where
  "is_cached cache path = (cache path \<noteq> None)"

definition set_hash :: "hash_cache \<Rightarrow> string \<Rightarrow> string \<Rightarrow> hash_cache" where
  "set_hash cache path h = cache(path \<mapsto> h)"

record Submission =
  fetched_path :: "string option"
  server_hash :: string

text \<open>
  \<^verbatim>\<open>Submission.is_fetched\<close>. The local variable \<^verbatim>\<open>local_hash\<close> is bound to \<^verbatim>\<open>None\<close>
  when the cached branch evaluates \<^verbatim>\<open>local_hash.get_hash(self.fetched_path)\<close>, which
  raises AttributeError. On the other branch \<^verbatim>\<open>git_head_hash\<close> may raise; nothing
  in the method catches it.
\<close>

definition is_fetched ::
  "Submission \<Rightarrow> hash_cache \<Rightarrow> world \<Rightarrow> (exn + bool) \<times> hash_cache \<times> world" where
  "is_fetched s cache w =
     (case fetched_path s of
        None \<Rightarrow> (Inr False, cache, w)
      | Some path \<Rightarrow>
          if is_cached cache path then
            (Inl (AttributeError ''NoneType object has no attribute get_hash''), cache, w)
          else
            case git_head_hash path w of
              (Inl e, w1) \<Rightarrow> (Inl e, cache, w1)
            | (Inr h, w1) \<Rightarrow> (Inr (h = server_hash s), set_hash cache path h, w1))"

section \<open>The response poller\<close>

text \<open>
  Modelled from the spec: the module \<^verbatim>\<open>gkeepclient.server_response_poller\<close> is not among
  the sources; only its caller \<^verbatim>\<open>publish_assignment\<close> is. The spec: a poller is
  constructed with an operation tag and a timeout \<open>T\<close>. Each iteration blocks until a
  new message tagged with the operation tag arrives, or the elapsed time since the
  poller started exceeds \<open>T\<close>. A WARNING message is emitted and the poller keeps
  polling; a SUCCESS or ERROR message is emitted and the poller stops; when the time
  is exceeded, a single synthetic TIMEOUT response is emitted and the poller stops.
  SUCCESS, ERROR and TIMEOUT are terminal, WARNING is not.

  The message source is the list of the messages in the order they arrive, each with
  the time elapsed since the poller started when it arrives; after the last one
  nothing arrives any more.
\<close>

datatype ServerResponseType = SUCCESS | ERROR | WARNING | TIMEOUT

record ServerResponse =
  response_type :: ServerResponseType
  message :: string

record server_message =
  arrival :: nat
  msg_tag :: string
  msg_type :: ServerResponseType
  msg_text :: string

fun is_terminal :: "ServerResponseType \<Rightarrow> bool" where
  "is_terminal WARNING = False"
| "is_terminal t = True"

definition timeout_response :: ServerResponse where
  "timeout_response = \<lparr>response_type = TIMEOUT, message = []\<rparr>"

definition response_of :: "server_message \<Rightarrow> ServerResponse" where
  "response_of m = \<lparr>response_type = msg_type m, message = msg_text m\<rparr>"

fun poll :: "nat \<Rightarrow> server_message list \<Rightarrow> ServerResponse list" where
  "poll T [] = [timeout_response]"
| "poll T (m # ms) =
     (if T < arrival m then [timeout_response]
      else if is_terminal (msg_type m) then [response_of m]
      else response_of m # poll T ms)"

definition response_generator ::
  "string \<Rightarrow> nat \<Rightarrow> server_message list \<Rightarrow> ServerResponse list" where
  "response_generator operation_tag T source =
     poll T (filter (\<lambda>m. msg_tag m = operation_tag) source)"

section \<open>Batches of resolved targets\<close>

text \<open>
  What the loop works out for one student before it pulls or clones: the local path,
  the remote URL and the remote HEAD hash of the snapshot. It is None when one of the
  lookups raises.
\<close>

type_synonym target = "string \<times> string \<times> string"

definition student_target ::
  "client \<Rightarrow> JsonInfo \<Rightarrow> string \<Rightarrow> string \<Rightarrow> string \<Rightarrow> string \<Rightarrow> target option" where
  "student_target cl info cn an asp u =
     (case assignment_by_student_hash info cn an u of
        Inl e \<Rightarrow> None
      | Inr rh \<Rightarrow>
          case last_first_username info cn u of
            Inl e \<Rightarrow> None
          | Inr lfu \<Rightarrow>
              case user_home_dir cl u of
                Inl e \<Rightarrow> None
              | Inr home \<Rightarrow> Some (os_path_join asp lfu, student_url cl cn an home, rh))"

fun sync_target :: "target \<Rightarrow> world \<Rightarrow> (exn + outcome) \<times> world" where
  "sync_target (path, url, rh) w = pull_or_clone path url rh w"

text \<open>The loop of \<open>fetch_each_student\<close> once every student is resolved to a target.\<close>

fun sync_all :: "target list \<Rightarrow> world \<Rightarrow> (exn + outcome list) \<times> world" where
  "sync_all [] w = (Inr [], w)"
| "sync_all (t # ts) w =
     (case sync_target t w of
        (Inl e, w1) \<Rightarrow> (Inl e, w1)
      | (Inr oc, w1) \<Rightarrow>
          case sync_all ts w1 of
            (Inl e, w2) \<Rightarrow> (Inl e, w2)
          | (Inr ocs, w2) \<Rightarrow> (Inr (oc # ocs), w2))"

fun target_decision :: "target \<Rightarrow> world \<Rightarrow> decision" where
  "target_decision (path, url, rh) w = sync_decision path url rh w"

fun target_fails :: "target \<Rightarrow> world \<Rightarrow> bool" where
  "target_fails (path, url, rh) w = transport_call_fails path url rh w"

text \<open>
  The snapshot is current for a target: if the remote can be reached, its HEAD is the
  hash that the snapshot gives.
\<close>

fun snapshot_current :: "world \<Rightarrow> target \<Rightarrow> bool" where
  "snapshot_current w (path, url, rh) =
     (case remote w url of Inl e \<Rightarrow> True | Inr h \<Rightarrow> h = rh)"

text \<open>
  The world reached once the first \<open>k\<close> targets have been pulled or cloned, one after
  the other. It is built from the single step \<open>sync_target\<close> alone, not from the loop,
  so that a theorem about the loop can say which world the loop must end in.
\<close>

definition world_at :: "target list \<Rightarrow> world \<Rightarrow> nat \<Rightarrow> world" where
  "world_at ts w k = fold (\<lambda>t v. snd (sync_target t v)) (take k ts) w"

section \<open>Example data\<close>

text \<open>
  A small class used wherever a theorem is applied to concrete data: three students,
  of whom alice has a stale clone, bob has none and an unreachable remote, and carol
  has a clone that is up to date.
\<close>

definition demo_client :: client where
  "demo_client =
     \<lparr>cfg = \<lparr>server_username = ''prof'', server_host = ''cs.example.edu'',
              server_ssh_port = ''2222''\<rparr>,
      user_home_dir = (\<lambda>u. Inr (''/home/'' @ u)),
      student_assignment_repo_path =
        (\<lambda>faculty cls asg home. home @ ''/'' @ faculty @ ''/'' @ cls @ ''/'' @ asg @ ''.git'')\<rparr>"

definition demo_hash :: "string \<Rightarrow> string" where
  "demo_hash u = (if u = ''alice'' then ''a1'' else if u = ''bob'' then ''b2'' else ''c3'')"

definition demo_info :: JsonInfo where
  "demo_info =
     \<lparr>student_list = (\<lambda>c. [''alice'', ''bob'', ''carol'']),
      assignment_by_student_hash = (\<lambda>c a u. Inr (demo_hash u)),
      last_first_username = (\<lambda>c u. Inr (''x_'' @ u))\<rparr>"

definition demo_world :: world where
  "demo_world =
     \<lparr>fs = [''/subs/x_alice'' \<mapsto> Repo (Inr ''a0''), ''/subs/x_carol'' \<mapsto> Repo (Inr ''c3'')],
      remote =
        (\<lambda>url. if url = ''ssh://prof@cs.example.edu:2222//home/bob/prof/cs1/hw1.git''
               then Inl (GkeepException ''unreachable'')
               else if url = ''ssh://prof@cs.example.edu:2222//home/alice/prof/cs1/hw1.git''
               then Inr ''a1'' else Inr ''c3''),
      calls = []\<rparr>"

definition demo_students :: "string list" where
  "demo_students = [''alice'', ''bob'', ''carol'']"

definition demo_targets :: "target list" where
  "demo_targets =
     [(''/subs/x_alice'', ''ssh://prof@cs.example.edu:2222//home/alice/prof/cs1/hw1.git'',
       ''a1''),
      (''/subs/x_bob'', ''ssh://prof@cs.example.edu:2222//home/bob/prof/cs1/hw1.git'',
       ''b2''),
      (''/subs/x_carol'', ''ssh://prof@cs.example.edu:2222//home/carol/prof/cs1/hw1.git'',
       ''c3'')]"

definition demo_submission :: Submission where
  "demo_submission = \<lparr>fetched_path = Some ''/subs/x_carol'', server_hash = ''c3''\<rparr>"

text \<open>
  A world in which reading the HEAD of alice's clone raises a transport error, and
  reading the HEAD of carol's clone raises another kind of exception.
\<close>

definition unreadable_world :: world where
  "unreadable_world =
     \<lparr>fs = [''/subs/x_alice'' \<mapsto> Repo (Inl (GkeepException ''bad HEAD'')),
             ''/subs/x_carol'' \<mapsto> Repo (Inl (OSError ''git not found''))],
      remote = (\<lambda>url. Inr ''a1''), calls = []\<rparr>"

text \<open>
  A world in which the remote has moved on since the snapshot was taken: the snapshot
  says \<open>a1\<close> for alice, the remote HEAD is \<open>a2\<close>.
\<close>

definition stale_snapshot_world :: world where
  "stale_snapshot_world =
     \<lparr>fs = [''/subs/x_alice'' \<mapsto> Repo (Inr ''a0'')], remote = (\<lambda>url. Inr ''a2''),
      calls = []\<rparr>"

text \<open>A world in which the local path of a submission is a directory but not a repository.\<close>

definition plain_dir_world :: world where
  "plain_dir_world =
     \<lparr>fs = [''/subs/x_alice'' \<mapsto> NotRepo], remote = (\<lambda>url. Inr ''a1''), calls = []\<rparr>"

section \<open>Properties\<close>

subsection \<open>Strings\<close>

lemma split_str_nonempty: "split_str sep s \<noteq> []"
  by (induction s) (auto split: list.splits)

lemma split_str_hd: "hd (split_str sep s) = takeWhile (\<lambda>c. c \<noteq> sep) s"
  by (induction s) (auto split: list.splits simp: split_str_nonempty)

lemma split_str_length: "length (split_str sep s) = Suc (count_list s sep)"
  by (induction s) (auto split: list.splits simp: split_str_nonempty)

lemma two_pieces: "length xs = 2 \<Longrightarrow> \<exists>a b. xs = [a, b]"
  by (cases xs; cases "tl xs"; auto)

lemma build_clone_url_eq: "build_clone_url c path = Inr (ssh_url c path)"
  by (simp add: build_clone_url_def ssh_url_def digit_val_def)

subsection \<open>The clone URL\<close>

text \<open>
  Claim C8. For every username, host, port and server path, \<open>build_clone_url\<close>
  returns exactly \<^verbatim>\<open>ssh://<username>@<host>:<port>/<path>\<close>, the path inserted as it
  is; for user prof, host cs.example.edu, port 2222 and path /home/prof/class/hw1 the
  result is \<^verbatim>\<open>ssh://prof@cs.example.edu:2222//home/prof/class/hw1\<close>, with both slashes.
\<close>

theorem build_clone_url_verbatim:
  "build_clone_url c path =
     Inr (''ssh://'' @ server_username c @ ''@'' @ server_host c @ '':'' @
          server_ssh_port c @ ''/'' @ path) \<and>
   build_clone_url
     \<lparr>server_username = ''prof'', server_host = ''cs.example.edu'',
      server_ssh_port = ''2222''\<rparr> ''/home/prof/class/hw1'' =
     Inr ''ssh://prof@cs.example.edu:2222//home/prof/class/hw1''"
  by (simp add: build_clone_url_def digit_val_def)

subsection \<open>Faculty rows\<close>

text \<open>
  Claim C10. \<open>from_csv_row\<close> returns a Faculty, whose username is the part of the
  email address before the first \<open>@\<close>, exactly when the row has three fields and the
  email address splits into two parts at \<open>@\<close>; in every other case it raises
  FacultyError.
\<close>

theorem from_csv_row_iff:
  "(length row = 3 \<and> length (split_str CHR ''@'' (row ! 2)) = 2 \<longrightarrow>
      (\<exists>f. from_csv_row row = Inr f \<and>
           username f = takeWhile (\<lambda>c. c \<noteq> CHR ''@'') (row ! 2) \<and>
           last_name f = row ! 0 \<and> first_name f = row ! 1 \<and>
           email_address f = row ! 2)) \<and>
   (\<not> (length row = 3 \<and> length (split_str CHR ''@'' (row ! 2)) = 2) \<longrightarrow>
      (\<exists>m. from_csv_row row = Inl (FacultyError m)))"
proof (intro conjI impI)
  assume a: "length row = 3 \<and> length (split_str CHR ''@'' (row ! 2)) = 2"
  then obtain l f e where row: "row = [l, f, e]"
    by (cases row; cases "tl row"; cases "tl (tl row)"; auto)
  with a obtain u d where sp: "split_str CHR ''@'' e = [u, d]"
    using two_pieces by fastforce
  have "u = takeWhile (\<lambda>c. c \<noteq> CHR ''@'') e"
    using split_str_hd[of "CHR ''@''" e] sp by simp
  then show "\<exists>f. from_csv_row row = Inr f \<and>
           username f = takeWhile (\<lambda>c. c \<noteq> CHR ''@'') (row ! 2) \<and>
           last_name f = row ! 0 \<and> first_name f = row ! 1 \<and>
           email_address f = row ! 2"
    by (simp add: from_csv_row_def row sp)
next
  assume a: "\<not> (length row = 3 \<and> length (split_str CHR ''@'' (row ! 2)) = 2)"
  show "\<exists>m. from_csv_row row = Inl (FacultyError m)"
  proof (cases "length row = 3")
    case False
    then show ?thesis
      by (auto simp: from_csv_row_def split: list.splits)
  next
    case True
    then obtain l f e where row: "row = [l, f, e]"
      by (cases row; cases "tl row"; cases "tl (tl row)"; auto)
    with a True have "length (split_str CHR ''@'' e) \<noteq> 2" by simp
    then show ?thesis
      by (auto simp: from_csv_row_def row split: list.splits)
  qed
qed

theorem from_csv_row_iff_witness:
  "(\<exists>f. from_csv_row [''Doe'', ''Jane'', ''jdoe@example.edu''] = Inr f \<and>
        username f = ''jdoe'') \<and>
   (\<exists>m. from_csv_row [''Doe'', ''Jane'', ''jdoe@cs@example.edu''] =
          Inl (FacultyError m)) \<and>
   (\<exists>m. from_csv_row [''Doe'', ''Jane''] = Inl (FacultyError m))"
  using from_csv_row_iff [of "[''Doe'', ''Jane'', ''jdoe@example.edu'']"]
    from_csv_row_iff [of "[''Doe'', ''Jane'', ''jdoe@cs@example.edu'']"]
    from_csv_row_iff [of "[''Doe'', ''Jane'']"]
  by auto

subsection \<open>The commands that one target issues\<close>

lemma issued_calls: "calls w' = calls w @ cs \<Longrightarrow> issued w w' = cs"
  by (simp add: issued_def)

lemma fetch_student_submission_resolved:
  "user_home_dir cl u = Inr home \<Longrightarrow>
   fetch_student_submission cl cn an asp rh u lfu w =
     pull_or_clone (os_path_join asp lfu) (student_url cl cn an home) rh w"
  by (simp add: fetch_student_submission_def student_url_def build_clone_url_eq Let_def)

lemma clone_repo_calls:
  "calls (snd (clone_repo path url w)) = calls w @ [GitClone url path]"
  by (auto simp: clone_repo_def git_clone_remote_def Let_def split: sum.splits)

lemma pull_or_clone_calls:
  "calls (snd (pull_or_clone path url rh w)) = calls w @
     (if \<not> isdir w path then [GitClone url path]
      else case fs w path of
             Some (Repo (Inr h)) \<Rightarrow>
               if h = rh then [GitHeadHash path] else [GitHeadHash path, GitPull path url]
           | Some (Repo (Inl e)) \<Rightarrow> [GitHeadHash path]
           | _ \<Rightarrow> [])"
  by (auto simp: pull_or_clone_def clone_repo_calls pull_repo_if_updated_def
      is_non_bare_repo_def git_head_hash_def git_pull_def Let_def isdir_def
      split: sum.splits option.splits entry.splits)

lemma pull_or_clone_issued:
  "issued w (snd (pull_or_clone path url rh w)) =
     (if \<not> isdir w path then [GitClone url path]
      else case fs w path of
             Some (Repo (Inr h)) \<Rightarrow>
               if h = rh then [GitHeadHash path] else [GitHeadHash path, GitPull path url]
           | Some (Repo (Inl e)) \<Rightarrow> [GitHeadHash path]
           | _ \<Rightarrow> [])"
  by (rule issued_calls) (rule pull_or_clone_calls)

lemma sync_decision_eq:
  "sync_decision path url rh w =
     (case fs w path of
        None \<Rightarrow> Clone
      | Some (Repo (Inr h)) \<Rightarrow> if h = rh then NoOp else Pull
      | _ \<Rightarrow> NoOp)"
  by (auto simp: sync_decision_def pull_or_clone_issued isdir_def
      split: option.splits entry.splits sum.splits)

text \<open>
  Claim C5. When the local path of a student's submission does not exist, the one git
  command that \<open>fetch_student_submission\<close> issues is a clone of the remote URL into
  that path, whatever the remote hash is; the decision is Clone.
\<close>

theorem missing_path_is_cloned:
  assumes "user_home_dir cl u = Inr home" and "\<not> isdir w (os_path_join asp lfu)"
  shows "issued w (snd (fetch_student_submission cl cn an asp rh u lfu w)) =
           [GitClone (student_url cl cn an home) (os_path_join asp lfu)] \<and>
         sync_decision (os_path_join asp lfu) (student_url cl cn an home) rh w = Clone"
  using assms
  by (simp add: fetch_student_submission_resolved pull_or_clone_issued sync_decision_def)

theorem missing_path_is_cloned_witness:
  "issued demo_world
     (snd (fetch_student_submission demo_client ''cs1'' ''hw1'' ''/subs'' ''b2''
             ''bob'' ''x_bob'' demo_world)) =
     [GitClone ''ssh://prof@cs.example.edu:2222//home/bob/prof/cs1/hw1.git'' ''/subs/x_bob'']"
  using missing_path_is_cloned [of demo_client "''bob''" "''/home/bob''" demo_world
      "''/subs''" "''x_bob''" "''cs1''" "''hw1''" "''b2''"]
  by (simp add: demo_client_def demo_world_def isdir_def os_path_join_def student_url_def
      ssh_url_def)

text \<open>
  Claim C1, as amended. For a local path that is an existing directory:
  \<^item> a pull is issued exactly when the path is a repository whose HEAD hash can be read
    and differs from the remote hash; the result is then that of the pull: Pulled, or
    the report of the GkeepException it raised, or any other exception passed on;
  \<^item> no clone or pull is issued otherwise. When the hashes are equal the function
    returns silently. When the path is not a repository it reports that and returns,
    leaving the world as it was. When reading the HEAD raises a GkeepException it
    reports the read error and returns; any other exception of the read is passed on
    to the caller.
  The third part lists the git commands issued in each case.
\<close>

theorem existing_path_decision:
  assumes "isdir w path"
  shows "(sync_decision path url rh w = Pull \<longleftrightarrow>
            (\<exists>h. local_hash w path = Some h \<and> h \<noteq> rh)) \<and>
         (sync_decision path url rh w = NoOp \<longleftrightarrow>
            local_hash w path = Some rh \<or> local_hash w path = None) \<and>
         issued w (snd (pull_or_clone path url rh w)) =
            (if \<exists>h. local_hash w path = Some h \<and> h \<noteq> rh
             then [GitHeadHash path, GitPull path url]
             else if is_non_bare_repo w path then [GitHeadHash path] else []) \<and>
         (\<not> is_non_bare_repo w path \<longrightarrow>
            pull_or_clone path url rh w = (Inr NotARepo, w)) \<and>
         (\<forall>e. fs w path = Some (Repo (Inl e)) \<longrightarrow>
            fst (pull_or_clone path url rh w) =
              (if is_GkeepException e then Inr (ReadError (str_exn e)) else Inl e)) \<and>
         (local_hash w path = Some rh \<longrightarrow>
            fst (pull_or_clone path url rh w) = Inr UpToDate) \<and>
         ((\<exists>h. local_hash w path = Some h \<and> h \<noteq> rh) \<longrightarrow>
            fst (pull_or_clone path url rh w) =
              (case remote w url of
                 Inr h \<Rightarrow> Inr Pulled
               | Inl e \<Rightarrow> if is_GkeepException e then Inr (PullError (str_exn e))
                          else Inl e))"
proof -
  have dec: "(sync_decision path url rh w = Pull \<longleftrightarrow>
            (\<exists>h. local_hash w path = Some h \<and> h \<noteq> rh)) \<and>
         (sync_decision path url rh w = NoOp \<longleftrightarrow>
            local_hash w path = Some rh \<or> local_hash w path = None) \<and>
         issued w (snd (pull_or_clone path url rh w)) =
            (if \<exists>h. local_hash w path = Some h \<and> h \<noteq> rh
             then [GitHeadHash path, GitPull path url]
             else if is_non_bare_repo w path then [GitHeadHash path] else [])"
    using assms
    by (auto simp: sync_decision_eq pull_or_clone_issued local_hash_def isdir_def
        is_non_bare_repo_def split: option.splits entry.splits sum.splits)
  have nr: "\<not> is_non_bare_repo w path \<longrightarrow>
            pull_or_clone path url rh w = (Inr NotARepo, w)"
    using assms by (simp add: pull_or_clone_def pull_repo_if_updated_def)
  have rd: "\<forall>e. fs w path = Some (Repo (Inl e)) \<longrightarrow>
            fst (pull_or_clone path url rh w) =
              (if is_GkeepException e then Inr (ReadError (str_exn e)) else Inl e)"
    using assms
    by (simp add: pull_or_clone_def pull_repo_if_updated_def is_non_bare_repo_def
        git_head_hash_def)
  have eq: "local_hash w path = Some rh \<longrightarrow>
            fst (pull_or_clone path url rh w) = Inr UpToDate"
    using assms
    by (auto simp: pull_or_clone_def pull_repo_if_updated_def is_non_bare_repo_def
        git_head_hash_def local_hash_def split: option.splits entry.splits sum.splits)
  have pl: "(\<exists>h. local_hash w path = Some h \<and> h \<noteq> rh) \<longrightarrow>
            fst (pull_or_clone path url rh w) =
              (case remote w url of
                 Inr h \<Rightarrow> Inr Pulled
               | Inl e \<Rightarrow> if is_GkeepException e then Inr (PullError (str_exn e))
                          else Inl e)"
    using assms
    by (auto simp: pull_or_clone_def pull_repo_if_updated_def is_non_bare_repo_def
        git_head_hash_def git_pull_def Let_def local_hash_def
        split: option.splits entry.splits sum.splits)
  show ?thesis
    by (intro conjI) (use dec nr rd eq pl in \<open>simp_all only:\<close>)
qed

theorem existing_path_decision_witness:
  "sync_decision ''/subs/x_alice''
     ''ssh://prof@cs.example.edu:2222//home/alice/prof/cs1/hw1.git'' ''a1''
     demo_world = Pull \<and>
   fst (pull_or_clone ''/subs/x_alice''
          ''ssh://prof@cs.example.edu:2222//home/alice/prof/cs1/hw1.git'' ''a1''
          demo_world) = Inr Pulled \<and>
   sync_decision ''/subs/x_carol''
     ''ssh://prof@cs.example.edu:2222//home/carol/prof/cs1/hw1.git'' ''c3''
     demo_world = NoOp \<and>
   fst (pull_or_clone ''/subs/x_carol''
          ''ssh://prof@cs.example.edu:2222//home/carol/prof/cs1/hw1.git'' ''c3''
          demo_world) = Inr UpToDate \<and>
   pull_or_clone ''/subs/x_alice'' ''u'' ''a1'' plain_dir_world =
     (Inr NotARepo, plain_dir_world) \<and>
   fst (pull_or_clone ''/subs/x_alice'' ''u'' ''a1'' unreadable_world) =
     Inr (ReadError ''bad HEAD'') \<and>
   fst (pull_or_clone ''/subs/x_carol'' ''u'' ''a1'' unreadable_world) =
     Inl (OSError ''git not found'')"
  using existing_path_decision [of demo_world "''/subs/x_alice''"
      "''ssh://prof@cs.example.edu:2222//home/alice/prof/cs1/hw1.git''" "''a1''"]
    existing_path_decision [of demo_world "''/subs/x_carol''"
      "''ssh://prof@cs.example.edu:2222//home/carol/prof/cs1/hw1.git''" "''c3''"]
    existing_path_decision [of plain_dir_world "''/subs/x_alice''" "''u''" "''a1''"]
    existing_path_decision [of unreadable_world "''/subs/x_alice''" "''u''" "''a1''"]
    existing_path_decision [of unreadable_world "''/subs/x_carol''" "''u''" "''a1''"]
  by (simp add: demo_world_def plain_dir_world_def unreadable_world_def isdir_def
      local_hash_def is_non_bare_repo_def)

text \<open>
  Claim C1, as stated, fails: the path exists and is not a repository, so its local
  hash is unknown and the spec's contract answers Pull, while the code prints that the
  path is not a git repository and issues no command at all.
\<close>

theorem plain_dir_counterexample:
  "isdir plain_dir_world ''/subs/x_alice'' \<and>
   local_hash plain_dir_world ''/subs/x_alice'' = None \<and>
   spec_decide True (local_hash plain_dir_world ''/subs/x_alice'') ''a1'' = Pull \<and>
   sync_decision ''/subs/x_alice''
     ''ssh://prof@cs.example.edu:2222//home/alice/prof/cs1/hw1.git'' ''a1''
     plain_dir_world = NoOp \<and>
   pull_or_clone ''/subs/x_alice''
     ''ssh://prof@cs.example.edu:2222//home/alice/prof/cs1/hw1.git'' ''a1''
     plain_dir_world = (Inr NotARepo, plain_dir_world)"
  by (simp add: plain_dir_world_def isdir_def local_hash_def spec_decide_def
      sync_decision_def pull_or_clone_def pull_repo_if_updated_def is_non_bare_repo_def
      issued_def)

subsection \<open>Submission.is_fetched\<close>

text \<open>
  Claim C9. For a submission with a fetched path that the cache reports as cached,
  \<open>is_fetched\<close> raises AttributeError; it returns a boolean only when the fetched
  path is None or the path is not cached.
\<close>

theorem is_fetched_cached_raises:
  "(fetched_path s = Some path \<and> is_cached cache path \<longrightarrow>
      (\<exists>m. fst (is_fetched s cache w) = Inl (AttributeError m))) \<and>
   (fst (is_fetched s cache w) = Inr b \<longrightarrow>
      fetched_path s = None \<or> (\<exists>p. fetched_path s = Some p \<and> \<not> is_cached cache p))"
  by (auto simp: is_fetched_def git_head_hash_def
      split: option.splits prod.splits sum.splits if_splits)

theorem is_fetched_cached_raises_witness:
  "(\<exists>m. fst (is_fetched demo_submission [''/subs/x_carol'' \<mapsto> ''c3''] demo_world) =
          Inl (AttributeError m)) \<and>
   \<not> is_cached Map.empty ''/subs/x_carol'' \<and>
   fst (is_fetched demo_submission Map.empty demo_world) = Inr True"
proof -
  have "\<exists>m. fst (is_fetched demo_submission [''/subs/x_carol'' \<mapsto> ''c3''] demo_world) =
          Inl (AttributeError m)"
    using is_fetched_cached_raises [of demo_submission "''/subs/x_carol''"
        "[''/subs/x_carol'' \<mapsto> ''c3'']" demo_world]
    by (simp add: demo_submission_def is_cached_def)
  moreover have "fst (is_fetched demo_submission Map.empty demo_world) = Inr True"
    by (simp add: is_fetched_def demo_submission_def is_cached_def git_head_hash_def
        demo_world_def)
  ultimately show ?thesis by (simp add: is_cached_def)
qed

text \<open>
  Claim C7 on the code: the first call of \<open>is_fetched\<close> for a path reads the HEAD hash
  and stores it; a second call that sees the stored entry raises AttributeError
  instead of returning the cached value, and a second call with a fresh cache reads
  the HEAD hash again. Either way the second call does not return a cached value.
\<close>

theorem is_fetched_twice:
  "is_fetched demo_submission Map.empty demo_world =
     (Inr True, [''/subs/x_carol'' \<mapsto> ''c3''],
      demo_world\<lparr>calls := [GitHeadHash ''/subs/x_carol'']\<rparr>) \<and>
   is_fetched demo_submission [''/subs/x_carol'' \<mapsto> ''c3'']
       (demo_world\<lparr>calls := [GitHeadHash ''/subs/x_carol'']\<rparr>) =
     (Inl (AttributeError ''NoneType object has no attribute get_hash''),
      [''/subs/x_carol'' \<mapsto> ''c3''],
      demo_world\<lparr>calls := [GitHeadHash ''/subs/x_carol'']\<rparr>) \<and>
   is_fetched demo_submission Map.empty
       (demo_world\<lparr>calls := [GitHeadHash ''/subs/x_carol'']\<rparr>) =
     (Inr True, [''/subs/x_carol'' \<mapsto> ''c3''],
      demo_world\<lparr>calls := [GitHeadHash ''/subs/x_carol'', GitHeadHash ''/subs/x_carol'']\<rparr>)"
  by (simp add: is_fetched_def demo_submission_def is_cached_def set_hash_def
      git_head_hash_def demo_world_def)

subsection \<open>The response poller\<close>

lemma timeout_is_terminal: "is_terminal (response_type timeout_response)"
  by (simp add: timeout_response_def)

text \<open>Every produced sequence is some warnings followed by one terminal response.\<close>

lemma poll_shape:
  "\<exists>ws t. poll T ms = ws @ [t] \<and> (\<forall>r\<in>set ws. \<not> is_terminal (response_type r)) \<and>
     is_terminal (response_type t)"
proof (induction ms)
  case Nil
  have "poll T [] = [] @ [timeout_response]" by simp
  then show ?case using timeout_is_terminal by fastforce
next
  case (Cons m ms)
  then obtain ws t where ih: "poll T ms = ws @ [t]"
    "\<forall>r\<in>set ws. \<not> is_terminal (response_type r)" "is_terminal (response_type t)"
    by blast
  show ?case
  proof (cases "T < arrival m")
    case True
    then have "poll T (m # ms) = [] @ [timeout_response]" by simp
    then show ?thesis using timeout_is_terminal by fastforce
  next
    case in_time: False
    show ?thesis
    proof (cases "is_terminal (msg_type m)")
      case True
      with in_time have "poll T (m # ms) = [] @ [response_of m]" by simp
      moreover have "is_terminal (response_type (response_of m))"
        using True by (simp add: response_of_def)
      ultimately show ?thesis by fastforce
    next
      case warning: False
      with in_time ih have "poll T (m # ms) = (response_of m # ws) @ [t]" by simp
      moreover have "\<forall>r\<in>set (response_of m # ws). \<not> is_terminal (response_type r)"
        using warning ih(2) by (simp add: response_of_def)
      ultimately show ?thesis using ih(3) by blast
    qed
  qed
qed

lemma one_at_the_end:
  assumes "out = ws @ [t]" and "\<forall>r\<in>set ws. \<not> P r" and "P t"
  shows "length (filter P out) = 1 \<and> (\<forall>i j. i < j \<and> j < length out \<longrightarrow> \<not> P (out ! i))"
proof -
  have "filter P ws = []" using assms(2) by (simp add: filter_empty_conv)
  then have a: "length (filter P out) = 1" using assms by simp
  have "\<not> P (out ! i)" if "i < j" "j < length out" for i j
  proof -
    from that assms(1) have "i < length ws" by simp
    then have "out ! i = ws ! i" "ws ! i \<in> set ws"
      using assms(1) by (simp_all add: nth_append)
    then show ?thesis using assms(2) by simp
  qed
  with a show ?thesis by blast
qed

lemma poll_none_in_time:
  "\<forall>m\<in>set ms. T < arrival m \<Longrightarrow> poll T ms = [timeout_response]"
  by (cases ms) auto

text \<open>
  Claim C3. In the sequence that a polling session produces, at most one response is
  terminal (SUCCESS, ERROR or TIMEOUT), and a response that has another one after it
  is not terminal, so nothing follows a terminal response. A source that emits WARNING,
  WARNING, SUCCESS for the polled tag within the timeout produces exactly these three
  responses.
\<close>

theorem response_generator_terminal_once:
  "length (filter (\<lambda>r. is_terminal (response_type r)) (response_generator tg T src)) \<le> 1 \<and>
   (\<forall>i j. i < j \<and> j < length (response_generator tg T src) \<longrightarrow>
      \<not> is_terminal (response_type (response_generator tg T src ! i))) \<and>
   (a1 \<le> T \<and> a2 \<le> T \<and> a3 \<le> T \<longrightarrow>
      response_generator tg T
        [\<lparr>arrival = a1, msg_tag = tg, msg_type = WARNING, msg_text = x1\<rparr>,
         \<lparr>arrival = a2, msg_tag = tg, msg_type = WARNING, msg_text = x2\<rparr>,
         \<lparr>arrival = a3, msg_tag = tg, msg_type = SUCCESS, msg_text = x3\<rparr>] =
        [\<lparr>response_type = WARNING, message = x1\<rparr>,
         \<lparr>response_type = WARNING, message = x2\<rparr>,
         \<lparr>response_type = SUCCESS, message = x3\<rparr>])"
proof -
  obtain ws t where sh: "response_generator tg T src = ws @ [t]"
    "\<forall>r\<in>set ws. \<not> is_terminal (response_type r)" "is_terminal (response_type t)"
    unfolding response_generator_def using poll_shape by blast
  from one_at_the_end[OF sh(1), of "\<lambda>r. is_terminal (response_type r)"] sh(2,3)
  have "length (filter (\<lambda>r. is_terminal (response_type r)) (response_generator tg T src)) = 1"
    and "\<forall>i j. i < j \<and> j < length (response_generator tg T src) \<longrightarrow>
      \<not> is_terminal (response_type (response_generator tg T src ! i))"
    by blast+
  then show ?thesis
    by (simp add: response_generator_def response_of_def)
qed

theorem response_generator_terminal_once_witness:
  "response_generator ''PUBLISH'' 20
     [\<lparr>arrival = 1, msg_tag = ''PUBLISH'', msg_type = WARNING, msg_text = ''w1''\<rparr>,
      \<lparr>arrival = 2, msg_tag = ''PUBLISH'', msg_type = WARNING, msg_text = ''w2''\<rparr>,
      \<lparr>arrival = 3, msg_tag = ''PUBLISH'', msg_type = SUCCESS, msg_text = ''done''\<rparr>] =
     [\<lparr>response_type = WARNING, message = ''w1''\<rparr>,
      \<lparr>response_type = WARNING, message = ''w2''\<rparr>,
      \<lparr>response_type = SUCCESS, message = ''done''\<rparr>]"
  using response_generator_terminal_once
    [of "''PUBLISH''" 20 "[]" 1 2 3 "''w1''" "''w2''" "''done''"]
  by simp

text \<open>
  Claim C4. When no message tagged with the polled operation tag arrives within the
  timeout, the poller produces exactly one response, the synthetic TIMEOUT, as an
  ordinary value of the sequence.
\<close>

theorem response_generator_timeout:
  assumes "\<forall>m\<in>set src. msg_tag m = tg \<longrightarrow> T < arrival m"
  shows "response_generator tg T src = [\<lparr>response_type = TIMEOUT, message = []\<rparr>]"
  unfolding response_generator_def timeout_response_def[symmetric]
  by (rule poll_none_in_time) (use assms in auto)

theorem response_generator_timeout_witness:
  "response_generator ''PUBLISH'' 1
     [\<lparr>arrival = 0, msg_tag = ''FETCH'', msg_type = SUCCESS, msg_text = ''other''\<rparr>,
      \<lparr>arrival = 5, msg_tag = ''PUBLISH'', msg_type = SUCCESS, msg_text = ''late''\<rparr>] =
     [\<lparr>response_type = TIMEOUT, message = []\<rparr>]"
  by (rule response_generator_timeout) simp

subsection \<open>The loop over the students\<close>

lemma fetch_each_student_sync_all:
  "map (student_target cl info cn an asp) us = map Some ts \<Longrightarrow>
   fetch_each_student cl info cn an asp us w = sync_all ts w"
proof (induction us arbitrary: ts w)
  case Nil
  then show ?case by simp
next
  case (Cons u us)
  then obtain t ts' where ts: "ts = t # ts'" "student_target cl info cn an asp u = Some t"
    "map (student_target cl info cn an asp) us = map Some ts'"
    by (cases ts) auto
  obtain p url rh where t: "t = (p, url, rh)" by (cases t)
  from ts(2) t obtain lfu home where
    l: "assignment_by_student_hash info cn an u = Inr rh"
       "last_first_username info cn u = Inr lfu" "user_home_dir cl u = Inr home"
       "p = os_path_join asp lfu" "url = student_url cl cn an home"
    by (auto simp: student_target_def split: sum.splits)
  show ?case
    using Cons.IH[OF ts(3)]
    by (simp add: ts(1) t l fetch_student_submission_resolved[OF l(3)]
        split: prod.splits sum.splits)
qed

text \<open>
  One target in a world whose failures are transport errors: the step returns an
  outcome, which reports a failure exactly when the clone or pull raises; it leaves
  the remote and every other local path as they were.
\<close>

lemma pull_or_clone_errs:
  assumes "transport_errors_only w"
  shows "\<exists>oc w'. pull_or_clone p url rh w = (Inr oc, w') \<and>
           (is_Failed oc \<longleftrightarrow> transport_call_fails p url rh w) \<and>
           transport_errors_only w' \<and> remote w' = remote w \<and>
           (\<forall>q. q \<noteq> p \<longrightarrow> fs w' q = fs w q)"
  using assms
  unfolding transport_call_fails_def sync_decision_eq
  by (auto simp: transport_errors_only_def pull_or_clone_def clone_repo_def
      pull_repo_if_updated_def git_clone_remote_def git_pull_def git_head_hash_def
      is_non_bare_repo_def isdir_def Let_def
      split: option.splits entry.splits sum.splits)

lemma sync_target_errs:
  assumes "transport_errors_only w"
  shows "\<exists>oc w'. sync_target t w = (Inr oc, w') \<and>
           (is_Failed oc \<longleftrightarrow> target_fails t w) \<and>
           transport_errors_only w' \<and> remote w' = remote w \<and>
           (\<forall>q. q \<noteq> fst t \<longrightarrow> fs w' q = fs w q)"
proof -
  obtain p url rh where t: "t = (p, url, rh)" by (cases t)
  show ?thesis using pull_or_clone_errs[OF assms, of p url rh] by (simp add: t)
qed

lemma sync_all_total:
  "transport_errors_only w \<Longrightarrow>
   \<exists>outs w'. sync_all ts w = (Inr outs, w') \<and> length outs = length ts \<and>
     transport_errors_only w' \<and> remote w' = remote w \<and>
     (\<forall>q. q \<notin> set (map fst ts) \<longrightarrow> fs w' q = fs w q)"
proof (induction ts arbitrary: w)
  case Nil
  then show ?case by simp
next
  case (Cons t ts)
  from sync_target_errs[OF Cons.prems, of t] obtain oc w1 where
    s: "sync_target t w = (Inr oc, w1)" "transport_errors_only w1" "remote w1 = remote w"
       "\<forall>q. q \<noteq> fst t \<longrightarrow> fs w1 q = fs w q" by blast
  from Cons.IH[OF s(2)] obtain outs w' where
    r: "sync_all ts w1 = (Inr outs, w')" "length outs = length ts"
       "transport_errors_only w'" "remote w' = remote w1"
       "\<forall>q. q \<notin> set (map fst ts) \<longrightarrow> fs w' q = fs w1 q" by blast
  have "sync_all (t # ts) w = (Inr (oc # outs), w')" by (simp add: s(1) r(1))
  moreover have "\<forall>q. q \<notin> set (map fst (t # ts)) \<longrightarrow> fs w' q = fs w q"
    using s(4) r(5) by simp
  ultimately show ?case using r(2,3,4) s(3) by simp
qed

lemma snd_sync_all_Cons:
  "sync_target t w = (Inr oc, w1) \<Longrightarrow> snd (sync_all (t # ts) w) = snd (sync_all ts w1)"
  by (simp split: prod.splits sum.splits)

lemma sync_all_nth:
  "transport_errors_only w \<Longrightarrow> sync_all ts w = (Inr outs, w') \<Longrightarrow> k < length ts \<Longrightarrow>
   fst (sync_target (ts ! k) (snd (sync_all (take k ts) w))) = Inr (outs ! k) \<and>
   (is_Failed (outs ! k) \<longleftrightarrow> target_fails (ts ! k) (snd (sync_all (take k ts) w)))"
proof (induction ts arbitrary: w outs k w')
  case Nil
  then show ?case by simp
next
  case (Cons t ts)
  from sync_target_errs[OF Cons.prems(1), of t] obtain oc w1 where
    s: "sync_target t w = (Inr oc, w1)" "is_Failed oc \<longleftrightarrow> target_fails t w"
       "transport_errors_only w1" by blast
  from sync_all_total[OF s(3), of ts] obtain outs1 w2 where
    r: "sync_all ts w1 = (Inr outs1, w2)" by blast
  have outs: "outs = oc # outs1" using Cons.prems(2) by (simp add: s(1) r)
  show ?case
  proof (cases k)
    case 0
    then show ?thesis using s by (simp add: outs)
  next
    case (Suc j)
    then have j: "j < length ts" using Cons.prems(3) by simp
    have "snd (sync_all (take k (t # ts)) w) = snd (sync_all (take j ts) w1)"
      using snd_sync_all_Cons[OF s(1)] by (simp add: Suc)
    then show ?thesis using Cons.IH[OF s(3) r j] by (simp add: Suc outs)
  qed
qed

lemma world_at_0: "world_at ts w 0 = w"
  by (simp add: world_at_def)

lemma world_at_Suc:
  "k < length ts \<Longrightarrow> world_at ts w (Suc k) = snd (sync_target (ts ! k) (world_at ts w k))"
  by (simp add: world_at_def take_Suc_conv_app_nth)

lemma world_at_Cons:
  "world_at (t # ts) w (Suc k) = world_at ts (snd (sync_target t w)) k"
  by (simp add: world_at_def)

lemma snd_sync_all_fold:
  "transport_errors_only w \<Longrightarrow>
   snd (sync_all ts w) = fold (\<lambda>t v. snd (sync_target t v)) ts w"
proof (induction ts arbitrary: w)
  case Nil
  then show ?case by simp
next
  case (Cons t ts)
  from sync_target_errs[OF Cons.prems, of t] obtain oc w1 where
    s: "sync_target t w = (Inr oc, w1)" "transport_errors_only w1" by blast
  show ?case
    using snd_sync_all_Cons[OF s(1), of ts] Cons.IH[OF s(2)] by (simp add: s(1))
qed

lemma world_at_sync_all:
  "transport_errors_only w \<Longrightarrow> world_at ts w k = snd (sync_all (take k ts) w)"
  by (simp add: world_at_def snd_sync_all_fold)

lemma calls_grow:
  "calls (snd (sync_target t v)) = calls v @ issued v (snd (sync_target t v))"
proof -
  obtain p url rh where t: "t = (p, url, rh)" by (cases t)
  show ?thesis
    unfolding t sync_target.simps pull_or_clone_issued
    by (rule pull_or_clone_calls)
qed

lemma world_at_calls:
  "k \<le> length ts \<Longrightarrow>
   calls (world_at ts w k) =
     calls w @ concat (map (\<lambda>j. issued (world_at ts w j) (world_at ts w (Suc j))) [0..<k])"
proof (induction k)
  case 0
  then show ?case by (simp add: world_at_0)
next
  case (Suc k)
  then have k: "k < length ts" by simp
  have "calls (world_at ts w (Suc k)) =
      calls (world_at ts w k) @ issued (world_at ts w k) (world_at ts w (Suc k))"
    unfolding world_at_Suc[OF k] by (rule calls_grow)
  then show ?case using Suc by simp
qed

lemma sync_all_steps:
  assumes errs: "transport_errors_only w" and run: "sync_all ts w = (Inr outs, w')"
  shows "w' = world_at ts w (length ts) \<and>
         (\<forall>k<length ts.
            sync_target (ts ! k) (world_at ts w k) = (Inr (outs ! k), world_at ts w (Suc k)) \<and>
            (is_Failed (outs ! k) \<longleftrightarrow> target_fails (ts ! k) (world_at ts w k)))"
proof (intro conjI allI impI)
  have "world_at ts w (length ts) = snd (sync_all (take (length ts) ts) w)"
    by (rule world_at_sync_all[OF errs])
  then show "w' = world_at ts w (length ts)" using run by simp
next
  fix k assume k: "k < length ts"
  have e: "snd (sync_all (take k ts) w) = world_at ts w k"
    by (rule world_at_sync_all[OF errs, symmetric])
  from sync_all_nth[OF errs run k]
  have a: "fst (sync_target (ts ! k) (world_at ts w k)) = Inr (outs ! k)"
    and b: "is_Failed (outs ! k) \<longleftrightarrow> target_fails (ts ! k) (world_at ts w k)"
    unfolding e by blast+
  have c: "snd (sync_target (ts ! k) (world_at ts w k)) = world_at ts w (Suc k)"
    by (rule world_at_Suc[OF k, symmetric])
  show "sync_target (ts ! k) (world_at ts w k) = (Inr (outs ! k), world_at ts w (Suc k))"
    using a c by (simp add: prod_eq_iff)
  show "is_Failed (outs ! k) \<longleftrightarrow> target_fails (ts ! k) (world_at ts w k)" by (rule b)
qed

subsection \<open>The example class\<close>

lemmas at_defs = world_at_def demo_targets_def pull_or_clone_def clone_repo_def
  pull_repo_if_updated_def git_clone_remote_def git_pull_def git_head_hash_def
  is_non_bare_repo_def isdir_def Let_def demo_world_def transport_call_fails_def
  sync_decision_def issued_def

lemma demo_resolved:
  "map (student_target demo_client demo_info ''cs1'' ''hw1'' ''/subs'') demo_students =
     map Some demo_targets"
  by (simp add: demo_students_def demo_targets_def student_target_def demo_client_def
      demo_info_def demo_hash_def os_path_join_def student_url_def ssh_url_def)

lemma demo_errs: "transport_errors_only demo_world"
  by (auto simp: transport_errors_only_def demo_world_def split: if_splits)

lemma demo_run:
  "fetch_each_student demo_client demo_info ''cs1'' ''hw1'' ''/subs'' demo_students
     demo_world =
     (Inr [Pulled, CloneError ''unreachable'', UpToDate],
      demo_world\<lparr>fs := (fs demo_world)(''/subs/x_alice'' \<mapsto> Repo (Inr ''a1'')),
        calls := [GitHeadHash ''/subs/x_alice'',
          GitPull ''/subs/x_alice''
            ''ssh://prof@cs.example.edu:2222//home/alice/prof/cs1/hw1.git'',
          GitClone ''ssh://prof@cs.example.edu:2222//home/bob/prof/cs1/hw1.git''
            ''/subs/x_bob'',
          GitHeadHash ''/subs/x_carol'']\<rparr>)"
  by (simp add: fetch_each_student_sync_all[OF demo_resolved] demo_targets_def
      pull_or_clone_def clone_repo_def pull_repo_if_updated_def git_clone_remote_def
      git_pull_def git_head_hash_def is_non_bare_repo_def isdir_def Let_def demo_world_def)

lemma alice_resolved:
  "map (student_target demo_client demo_info ''cs1'' ''hw1'' ''/subs'') [''alice''] =
     map Some [demo_targets ! 0]"
  by (simp add: demo_targets_def student_target_def demo_client_def
      demo_info_def demo_hash_def os_path_join_def student_url_def ssh_url_def)

subsection \<open>A failure stays with its target\<close>

text \<open>
  Claim C2. Take a batch of N students whose lookups succeed, in a world whose
  failures are transport errors. If the clone or pull for the student at index \<open>k\<close>
  raises, and the one for no other student does, then:
  \<^item> the loop returns normally, so no exception leaves it, with N outcomes;
  \<^item> the outcome at \<open>k\<close> is the only one that is Failed;
  \<^item> every target, also those after \<open>k\<close>, is processed: the loop ends in the world
    that pulling or cloning the N targets one after the other leads to, each outcome
    is the one its target's step returns, and the log of git commands is the log
    before the batch followed by the commands of each target's step, in order.
\<close>

theorem batch_isolates_failure:
  assumes res: "map (student_target cl info cn an asp) us = map Some ts"
    and errs: "transport_errors_only w"
    and k: "k < length us"
    and fk: "target_fails (ts ! k) (world_at ts w k)"
    and others: "\<forall>j<length us. j \<noteq> k \<longrightarrow> \<not> target_fails (ts ! j) (world_at ts w j)"
  shows "\<exists>outs.
           fetch_each_student cl info cn an asp us w =
             (Inr outs, world_at ts w (length us)) \<and>
           length outs = length us \<and>
           (\<forall>j<length us. is_Failed (outs ! j) \<longleftrightarrow> j = k) \<and>
           (\<forall>j<length us.
              sync_target (ts ! j) (world_at ts w j) =
                (Inr (outs ! j), world_at ts w (Suc j))) \<and>
           calls (world_at ts w (length us)) =
             calls w @
             concat (map (\<lambda>j. issued (world_at ts w j) (world_at ts w (Suc j)))
                       [0..<length us])"
proof -
  have len: "length ts = length us" using res by (metis length_map)
  from sync_all_total[OF errs, of ts] obtain outs w' where
    r: "sync_all ts w = (Inr outs, w')" "length outs = length ts" by blast
  note st = sync_all_steps[OF errs r(1)]
  have run: "fetch_each_student cl info cn an asp us w = (Inr outs, world_at ts w (length us))"
    using fetch_each_student_sync_all[OF res] r(1) st len by simp
  have each: "sync_target (ts ! j) (world_at ts w j) = (Inr (outs ! j), world_at ts w (Suc j))"
    and fl: "is_Failed (outs ! j) \<longleftrightarrow> target_fails (ts ! j) (world_at ts w j)"
    if "j < length us" for j
    using st that len by auto
  have one: "is_Failed (outs ! j) \<longleftrightarrow> j = k" if "j < length us" for j
    using fl[OF that] fk others that by blast
  have log: "calls (world_at ts w (length us)) =
      calls w @ concat (map (\<lambda>j. issued (world_at ts w j) (world_at ts w (Suc j)))
                         [0..<length us])"
    by (rule world_at_calls) (simp add: len)
  show ?thesis
  proof (intro exI[of _ outs] conjI allI impI)
    show "fetch_each_student cl info cn an asp us w = (Inr outs, world_at ts w (length us))"
      by (rule run)
    show "length outs = length us" using r(2) len by simp
    show "is_Failed (outs ! j) \<longleftrightarrow> j = k" if "j < length us" for j by (rule one[OF that])
    show "sync_target (ts ! j) (world_at ts w j) = (Inr (outs ! j), world_at ts w (Suc j))"
      if "j < length us" for j by (rule each[OF that])
    show "calls (world_at ts w (length us)) =
      calls w @ concat (map (\<lambda>j. issued (world_at ts w j) (world_at ts w (Suc j)))
                         [0..<length us])" by (rule log)
  qed
qed

theorem batch_isolates_failure_witness:
  "\<exists>outs.
     fst (fetch_each_student demo_client demo_info ''cs1'' ''hw1'' ''/subs'' demo_students
       demo_world) = Inr outs \<and>
     length outs = 3 \<and> \<not> is_Failed (outs ! 0) \<and> is_Failed (outs ! 1) \<and>
     \<not> is_Failed (outs ! 2) \<and>
     calls (snd (fetch_each_student demo_client demo_info ''cs1'' ''hw1'' ''/subs''
                   demo_students demo_world)) =
       [GitHeadHash ''/subs/x_alice'',
        GitPull ''/subs/x_alice''
          ''ssh://prof@cs.example.edu:2222//home/alice/prof/cs1/hw1.git'',
        GitClone ''ssh://prof@cs.example.edu:2222//home/bob/prof/cs1/hw1.git''
          ''/subs/x_bob'',
        GitHeadHash ''/subs/x_carol'']"
proof -
  have k: "1 < length demo_students" by (simp add: demo_students_def)
  have f0: "\<not> target_fails (demo_targets ! 0) (world_at demo_targets demo_world 0)"
    by (simp add: at_defs)
  have f1: "target_fails (demo_targets ! 1) (world_at demo_targets demo_world 1)"
    by (simp add: at_defs)
  have f2: "\<not> target_fails (demo_targets ! 2) (world_at demo_targets demo_world 2)"
    by (simp add: at_defs)
  have others: "\<forall>j<length demo_students. j \<noteq> 1 \<longrightarrow>
      \<not> target_fails (demo_targets ! j) (world_at demo_targets demo_world j)"
  proof (intro allI impI)
    fix j assume "j < length demo_students" and "j \<noteq> 1"
    then have "j = 0 \<or> j = 2" by (auto simp: demo_students_def)
    then show "\<not> target_fails (demo_targets ! j) (world_at demo_targets demo_world j)"
      using f0 f2 by auto
  qed
  from batch_isolates_failure[OF demo_resolved demo_errs k f1 others]
  obtain outs where
    r: "fetch_each_student demo_client demo_info ''cs1'' ''hw1'' ''/subs'' demo_students
          demo_world = (Inr outs, world_at demo_targets demo_world (length demo_students))"
       "length outs = length demo_students"
       "\<forall>j<length demo_students. is_Failed (outs ! j) \<longleftrightarrow> j = 1"
    by blast
  have "\<not> is_Failed (outs ! 0)" "is_Failed (outs ! 1)" "\<not> is_Failed (outs ! 2)"
    using r(3) by (simp_all add: demo_students_def)
  moreover have "calls (world_at demo_targets demo_world (length demo_students)) =
       [GitHeadHash ''/subs/x_alice'',
        GitPull ''/subs/x_alice''
          ''ssh://prof@cs.example.edu:2222//home/alice/prof/cs1/hw1.git'',
        GitClone ''ssh://prof@cs.example.edu:2222//home/bob/prof/cs1/hw1.git''
          ''/subs/x_bob'',
        GitHeadHash ''/subs/x_carol'']"
    by (simp add: demo_students_def at_defs)
  ultimately show ?thesis using r(1,2) by (simp add: demo_students_def)
qed

subsection \<open>Running the loop a second time\<close>

text \<open>
  After one target is done in a world whose snapshot is current for it, the decision
  that the same target gets is a retry if its clone or pull failed, and nothing
  otherwise.
\<close>

lemma pull_or_clone_again:
  assumes "transport_errors_only w" and "snapshot_current w (p, url, rh)"
    and "pull_or_clone p url rh w = (Inr oc, w')"
  shows "sync_decision p url rh w' =
           (if is_Failed oc then (if isdir w' p then Pull else Clone) else NoOp)"
  using assms
  unfolding sync_decision_eq
  by (auto simp: transport_errors_only_def pull_or_clone_def clone_repo_def
      pull_repo_if_updated_def git_clone_remote_def git_pull_def git_head_hash_def
      is_non_bare_repo_def isdir_def Let_def
      split: option.splits entry.splits sum.splits if_splits)

lemma target_decision_fs:
  "fs v (fst t) = fs w (fst t) \<Longrightarrow> target_decision t v = target_decision t w"
  by (cases t) (simp add: sync_decision_eq)

lemma isdir_fs: "fs v p = fs w p \<Longrightarrow> isdir v p = isdir w p"
  by (simp add: isdir_def)

lemma snapshot_current_remote:
  "remote v = remote w \<Longrightarrow> snapshot_current v t = snapshot_current w t"
  by (cases t) simp

lemma sync_all_again:
  "transport_errors_only w \<Longrightarrow> distinct (map fst ts) \<Longrightarrow>
   list_all (snapshot_current w) ts \<Longrightarrow> sync_all ts w = (Inr outs, w1) \<Longrightarrow>
   k < length ts \<Longrightarrow>
   target_decision (ts ! k) w1 =
     (if is_Failed (outs ! k) then (if isdir w1 (fst (ts ! k)) then Pull else Clone)
      else NoOp)"
proof (induction ts arbitrary: w outs k w1)
  case Nil
  then show ?case by simp
next
  case (Cons t ts)
  obtain p url rh where t: "t = (p, url, rh)" by (cases t)
  from sync_target_errs[OF Cons.prems(1), of t] obtain oc w' where
    s: "sync_target t w = (Inr oc, w')" "transport_errors_only w'" "remote w' = remote w"
    by blast
  from sync_all_total[OF s(2), of ts] obtain outs' w2 where
    r: "sync_all ts w' = (Inr outs', w2)"
       "\<forall>q. q \<notin> set (map fst ts) \<longrightarrow> fs w2 q = fs w' q" by blast
  have eq: "outs = oc # outs'" "w1 = w2"
    using Cons.prems(4) by (simp_all add: s(1) r(1))
  show ?case
  proof (cases k)
    case 0
    have cur: "snapshot_current w (p, url, rh)" using Cons.prems(3) by (simp add: t)
    have again: "sync_decision p url rh w' =
        (if is_Failed oc then (if isdir w' p then Pull else Clone) else NoOp)"
      using pull_or_clone_again[OF Cons.prems(1) cur] s(1) by (simp add: t)
    have "p \<notin> set (map fst ts)" using Cons.prems(2) by (simp add: t)
    then have same: "fs w2 p = fs w' p" using r(2) by blast
    have "target_decision t w2 = target_decision t w'"
      by (rule target_decision_fs) (simp add: t same)
    moreover have "isdir w2 p = isdir w' p" by (rule isdir_fs[OF same])
    ultimately show ?thesis using again by (simp add: 0 eq t)
  next
    case (Suc j)
    then have j: "j < length ts" using Cons.prems(5) by simp
    have d: "distinct (map fst ts)" using Cons.prems(2) by simp
    have c: "list_all (snapshot_current w') ts"
      using Cons.prems(3) snapshot_current_remote[OF s(3)] by (simp add: list_all_iff)
    from Cons.IH[OF s(2) d c r(1) j] show ?thesis by (simp add: Suc eq)
  qed
qed

text \<open>With distinct local paths, the targets done earlier leave a later path alone.\<close>

lemma before_same_fs:
  assumes "transport_errors_only w" and "distinct (map fst ts)" and "k < length ts"
  shows "fs (snd (sync_all (take k ts) w)) (fst (ts ! k)) = fs w (fst (ts ! k))"
proof -
  from sync_all_total[OF assms(1), of "take k ts"] obtain outs w' where
    r: "sync_all (take k ts) w = (Inr outs, w')"
       "\<forall>q. q \<notin> set (map fst (take k ts)) \<longrightarrow> fs w' q = fs w q" by blast
  have "map fst ts ! k \<notin> set (take k (map fst ts))"
    using assms(2,3)
    by (metis distinct_take id_take_nth_drop not_distinct_conv_prefix length_map)
  then have "fst (ts ! k) \<notin> set (map fst (take k ts))"
    using assms(3) by (simp add: take_map)
  then show ?thesis using r by simp
qed

lemma before_same_fs_at:
  assumes "transport_errors_only w" and "distinct (map fst ts)" and "k < length ts"
  shows "fs (world_at ts w k) (fst (ts ! k)) = fs w (fst (ts ! k))"
  using before_same_fs[OF assms] by (simp add: world_at_sync_all[OF assms(1)])

text \<open>
  Claim C6, as amended. Run the loop twice in succession over the same students, with
  lookups that succeed, local paths that are pairwise distinct, a world whose failures
  are transport errors, and a snapshot that is current: a remote that can be reached
  has the HEAD hash that the snapshot gives. Both runs return normally, the second
  starting in the world the first ended in. On the second run the decision for a
  target is NoOp, no clone and no pull, unless the target's clone or pull raised on
  the first run; if it did, the decision is Clone when the local path is absent after
  the first run and Pull otherwise. The outcomes that report a directory that is not
  a repository or a HEAD that cannot be read are not Failed: no clone or pull was
  attempted for them.
\<close>

theorem rerun_decisions:
  assumes res: "map (student_target cl info cn an asp) us = map Some ts"
    and errs: "transport_errors_only w"
    and dist: "distinct (map fst ts)"
    and cur: "list_all (snapshot_current w) ts"
  shows "\<exists>outs1 outs2.
           fetch_each_student cl info cn an asp us w =
             (Inr outs1, world_at ts w (length us)) \<and>
           fetch_each_student cl info cn an asp us (world_at ts w (length us)) =
             (Inr outs2, world_at ts (world_at ts w (length us)) (length us)) \<and>
           (\<forall>k<length us.
              target_decision (ts ! k) (world_at ts (world_at ts w (length us)) k) =
                (if is_Failed (outs1 ! k)
                 then (if isdir (world_at ts w (length us)) (fst (ts ! k)) then Pull
                       else Clone)
                 else NoOp) \<and>
              sync_target (ts ! k) (world_at ts (world_at ts w (length us)) k) =
                (Inr (outs2 ! k), world_at ts (world_at ts w (length us)) (Suc k)))"
proof -
  have len: "length ts = length us" using res by (metis length_map)
  from sync_all_total[OF errs, of ts] obtain outs1 w1 where
    r1: "sync_all ts w = (Inr outs1, w1)" "transport_errors_only w1" by blast
  from sync_all_total[OF r1(2), of ts] obtain outs2 w2 where
    r2: "sync_all ts w1 = (Inr outs2, w2)" by blast
  note st1 = sync_all_steps[OF errs r1(1)]
  note st2 = sync_all_steps[OF r1(2) r2]
  have w1: "w1 = world_at ts w (length us)" using st1 len by simp
  have w2: "w2 = world_at ts w1 (length us)" using st2 len by simp
  have dec: "target_decision (ts ! k) (world_at ts w1 k) =
      (if is_Failed (outs1 ! k) then (if isdir w1 (fst (ts ! k)) then Pull else Clone)
       else NoOp)" if "k < length us" for k
  proof -
    have k: "k < length ts" using that len by simp
    have "fs (world_at ts w1 k) (fst (ts ! k)) = fs w1 (fst (ts ! k))"
      by (rule before_same_fs_at[OF r1(2) dist k])
    then have "target_decision (ts ! k) (world_at ts w1 k) = target_decision (ts ! k) w1"
      by (rule target_decision_fs)
    then show ?thesis
      using sync_all_again[OF errs dist cur r1(1) k] by simp
  qed
  have step2: "sync_target (ts ! k) (world_at ts w1 k) =
      (Inr (outs2 ! k), world_at ts w1 (Suc k))" if "k < length us" for k
    using st2 that len by auto
  have a: "fetch_each_student cl info cn an asp us w = (Inr outs1, world_at ts w (length us))"
    using fetch_each_student_sync_all[OF res] r1(1) w1 by simp
  have b: "fetch_each_student cl info cn an asp us (world_at ts w (length us)) =
      (Inr outs2, world_at ts (world_at ts w (length us)) (length us))"
    using fetch_each_student_sync_all[OF res] r2 w1 w2 by simp
  have c: "\<forall>k<length us.
      target_decision (ts ! k) (world_at ts (world_at ts w (length us)) k) =
        (if is_Failed (outs1 ! k)
         then (if isdir (world_at ts w (length us)) (fst (ts ! k)) then Pull else Clone)
         else NoOp) \<and>
      sync_target (ts ! k) (world_at ts (world_at ts w (length us)) k) =
        (Inr (outs2 ! k), world_at ts (world_at ts w (length us)) (Suc k))"
    using dec step2 unfolding w1 by simp
  show ?thesis
    apply (rule exI[of _ outs1])
    apply (rule exI[of _ outs2])
    using a b c by (intro conjI)
qed

theorem rerun_decisions_witness:
  "target_decision (demo_targets ! 0)
     (world_at demo_targets (world_at demo_targets demo_world 3) 0) = NoOp \<and>
   target_decision (demo_targets ! 1)
     (world_at demo_targets (world_at demo_targets demo_world 3) 1) = Clone \<and>
   target_decision (demo_targets ! 2)
     (world_at demo_targets (world_at demo_targets demo_world 3) 2) = NoOp \<and>
   fst (fetch_each_student demo_client demo_info ''cs1'' ''hw1'' ''/subs'' demo_students
          demo_world) = Inr [Pulled, CloneError ''unreachable'', UpToDate] \<and>
   snd (fetch_each_student demo_client demo_info ''cs1'' ''hw1'' ''/subs'' demo_students
          demo_world) = world_at demo_targets demo_world 3"
proof -
  have dist: "distinct (map fst demo_targets)" by (simp add: demo_targets_def)
  have cur: "list_all (snapshot_current demo_world) demo_targets"
    by (simp add: demo_targets_def demo_world_def)
  have three: "length demo_students = 3" by (simp add: demo_students_def)
  from rerun_decisions[OF demo_resolved demo_errs dist cur]
  obtain outs1 where
    r: "fetch_each_student demo_client demo_info ''cs1'' ''hw1'' ''/subs'' demo_students
          demo_world = (Inr outs1, world_at demo_targets demo_world 3)"
       "\<forall>k<3.
          target_decision (demo_targets ! k)
            (world_at demo_targets (world_at demo_targets demo_world 3) k) =
            (if is_Failed (outs1 ! k)
             then (if isdir (world_at demo_targets demo_world 3) (fst (demo_targets ! k))
                   then Pull else Clone)
             else NoOp)"
    unfolding three by blast
  from r(1) demo_run have o: "outs1 = [Pulled, CloneError ''unreachable'', UpToDate]"
    by simp
  have nb: "\<not> isdir (world_at demo_targets demo_world 3) ''/subs/x_bob''"
    by (simp add: at_defs)
  have d: "\<And>k. k < 3 \<Longrightarrow> target_decision (demo_targets ! k)
            (world_at demo_targets (world_at demo_targets demo_world 3) k) =
            (if is_Failed (outs1 ! k)
             then (if isdir (world_at demo_targets demo_world 3) (fst (demo_targets ! k))
                   then Pull else Clone)
             else NoOp)" using r(2) by simp
  have d0: "target_decision (demo_targets ! 0)
     (world_at demo_targets (world_at demo_targets demo_world 3) 0) = NoOp"
    using d[of 0] by (simp add: o)
  have d1: "target_decision (demo_targets ! 1)
     (world_at demo_targets (world_at demo_targets demo_world 3) 1) = Clone"
    using d[of 1] nb by (simp add: o demo_targets_def)
  have d2: "target_decision (demo_targets ! 2)
     (world_at demo_targets (world_at demo_targets demo_world 3) 2) = NoOp"
    using d[of 2] by (simp add: o)
  show ?thesis using d0 d1 d2 r(1) by (simp add: o)
qed

text \<open>
  Claim C6, as stated, fails twice over. First, a target whose local path is a
  directory that is not a repository ends the first run with an error report, its path
  is present, and the second run issues no pull for it. Second, when the remote has
  moved on since the snapshot was taken, a target that was pulled successfully on the
  first run is pulled again on the second, with the very same snapshot.
\<close>

theorem rerun_counterexample:
  "fetch_each_student demo_client demo_info ''cs1'' ''hw1'' ''/subs'' [''alice'']
     plain_dir_world = (Inr [NotARepo], plain_dir_world) \<and>
   reports_error NotARepo \<and>
   isdir plain_dir_world ''/subs/x_alice'' \<and>
   target_decision (demo_targets ! 0) plain_dir_world = NoOp \<and>
   fst (fetch_each_student demo_client demo_info ''cs1'' ''hw1'' ''/subs'' [''alice'']
          stale_snapshot_world) = Inr [Pulled] \<and>
   target_decision (demo_targets ! 0)
     (snd (fetch_each_student demo_client demo_info ''cs1'' ''hw1'' ''/subs'' [''alice'']
             stale_snapshot_world)) = Pull"
  unfolding fetch_each_student_sync_all[OF alice_resolved]
  by (simp add: demo_targets_def
      plain_dir_world_def stale_snapshot_world_def sync_decision_eq
      pull_or_clone_def clone_repo_def pull_repo_if_updated_def git_clone_remote_def
      git_pull_def git_head_hash_def is_non_bare_repo_def isdir_def Let_def)

end
